theory Spec2Isabelle
  imports Complex_Main
begin

section \<open>JavaScript numbers\<close>

text \<open>
  The chart code of \<^verbatim>\<open>src/app/page.tsx\<close> computes on JavaScript numbers. They are
  modelled here as the real numbers extended by the three special values of the
  language: \<open>Infinity\<close>, \<open>-Infinity\<close> and \<open>NaN\<close>. The operators follow
  the language's rules for the special values (a comparison with \<open>NaN\<close> is false,
  \<open>0 / 0\<close> is \<open>NaN\<close>, \<open>1 / 0\<close> is \<open>Infinity\<close>, \<open>Infinity - Infinity\<close>
  is \<open>NaN\<close>, and so on). On finite operands the arithmetic is exact: the rounding
  of binary floating point, overflow to infinity and the sign of zero are not part of
  this model.
\<close>

datatype number = Fin real | PInf | NInf | NaN


instantiation number :: "{zero, plus, uminus, minus, times, inverse, ord}"
begin

definition zero_number :: number where
  "zero_number = Fin 0"

fun plus_number :: "number \<Rightarrow> number \<Rightarrow> number" where
  "plus_number (Fin a) (Fin b) = Fin (a + b)"
| "plus_number (Fin a) PInf = PInf"
| "plus_number (Fin a) NInf = NInf"
| "plus_number PInf (Fin b) = PInf"
| "plus_number PInf PInf = PInf"
| "plus_number PInf NInf = NaN"
| "plus_number NInf (Fin b) = NInf"
| "plus_number NInf PInf = NaN"
| "plus_number NInf NInf = NInf"
| "plus_number NaN b = NaN"
| "plus_number a NaN = NaN"

fun uminus_number :: "number \<Rightarrow> number" where
  "uminus_number (Fin a) = Fin (- a)"
| "uminus_number PInf = NInf"
| "uminus_number NInf = PInf"
| "uminus_number NaN = NaN"

definition minus_number :: "number \<Rightarrow> number \<Rightarrow> number" where
  "minus_number a b = a + (- b)"

fun times_number :: "number \<Rightarrow> number \<Rightarrow> number" where
  "times_number (Fin a) (Fin b) = Fin (a * b)"
| "times_number (Fin a) PInf = (if a = 0 then NaN else if 0 < a then PInf else NInf)"
| "times_number (Fin a) NInf = (if a = 0 then NaN else if 0 < a then NInf else PInf)"
| "times_number PInf (Fin b) = (if b = 0 then NaN else if 0 < b then PInf else NInf)"
| "times_number NInf (Fin b) = (if b = 0 then NaN else if 0 < b then NInf else PInf)"
| "times_number PInf PInf = PInf"
| "times_number PInf NInf = NInf"
| "times_number NInf PInf = NInf"
| "times_number NInf NInf = PInf"
| "times_number NaN b = NaN"
| "times_number a NaN = NaN"

fun divide_number :: "number \<Rightarrow> number \<Rightarrow> number" where
  "divide_number (Fin a) (Fin b) =
     (if b = 0 then (if a = 0 then NaN else if 0 < a then PInf else NInf)
      else Fin (a / b))"
| "divide_number (Fin a) PInf = Fin 0"
| "divide_number (Fin a) NInf = Fin 0"
| "divide_number PInf (Fin b) = (if 0 \<le> b then PInf else NInf)"
| "divide_number NInf (Fin b) = (if 0 \<le> b then NInf else PInf)"
| "divide_number PInf PInf = NaN"
| "divide_number PInf NInf = NaN"
| "divide_number NInf PInf = NaN"
| "divide_number NInf NInf = NaN"
| "divide_number NaN b = NaN"
| "divide_number a NaN = NaN"

fun inverse_number :: "number \<Rightarrow> number" where
  "inverse_number (Fin a) = (if a = 0 then PInf else Fin (1 / a))"
| "inverse_number PInf = Fin 0"
| "inverse_number NInf = Fin 0"
| "inverse_number NaN = NaN"

fun less_eq_number :: "number \<Rightarrow> number \<Rightarrow> bool" where
  "less_eq_number (Fin a) (Fin b) = (a \<le> b)"
| "less_eq_number (Fin a) PInf = True"
| "less_eq_number (Fin a) NInf = False"
| "less_eq_number PInf (Fin b) = False"
| "less_eq_number PInf PInf = True"
| "less_eq_number PInf NInf = False"
| "less_eq_number NInf (Fin b) = True"
| "less_eq_number NInf PInf = True"
| "less_eq_number NInf NInf = True"
| "less_eq_number NaN b = False"
| "less_eq_number a NaN = False"

fun less_number :: "number \<Rightarrow> number \<Rightarrow> bool" where
  "less_number (Fin a) (Fin b) = (a < b)"
| "less_number (Fin a) PInf = True"
| "less_number (Fin a) NInf = False"
| "less_number PInf (Fin b) = False"
| "less_number PInf PInf = False"
| "less_number PInf NInf = False"
| "less_number NInf (Fin b) = True"
| "less_number NInf PInf = True"
| "less_number NInf NInf = False"
| "less_number NaN b = False"
| "less_number a NaN = False"

instance ..

end

section \<open>Data model\<close>

text \<open>
  The interfaces \<^verbatim>\<open>DataPoint\<close> and \<^verbatim>\<open>ChartLine\<close>. An optional field
  (\<^verbatim>\<open>label?\<close>, \<^verbatim>\<open>isPrimary?\<close>, ...) is an \<open>option\<close>: \<open>None\<close> is the
  absent field. The field \<^verbatim>\<open>id\<close> is named \<open>id'\<close>, since \<open>id\<close> is the
  identity function of HOL.
\<close>

record DataPoint =
  x :: number
  y :: number
  label :: "string option"

record ChartLine =
  id' :: string
  data :: "DataPoint list"
  label :: string
  color :: string
  lineOpacity :: "number option"
  lineWidth :: "number option"
  isPrimary :: "bool option"

section \<open>Series Interpolator: \<^verbatim>\<open>getYAtX\<close>\<close>

text \<open>
  The \<^verbatim>\<open>for\<close> loop of \<^verbatim>\<open>getYAtX\<close>, started at index \<open>i\<close>. The result is
  \<open>Some r\<close> when the loop body returns \<open>r\<close> and \<open>None\<close> when the loop runs
  to its end. The loop test \<^verbatim>\<open>i < points.length - 1\<close> is written \<open>i + 1 < length points\<close>,
  which is the same test on the integers and does not depend on how subtraction
  on \<open>nat\<close> truncates.
\<close>

function getYAtX_loop :: "DataPoint list \<Rightarrow> number \<Rightarrow> nat \<Rightarrow> number option" where
  "getYAtX_loop points targetX i =
     (if i + 1 < length points then
        (if targetX \<ge> x (points ! i) \<and> targetX \<le> x (points ! (i + 1)) then
           (let t = (targetX - x (points ! i)) / (x (points ! (i + 1)) - x (points ! i))
            in Some (y (points ! i) + t * (y (points ! (i + 1)) - y (points ! i))))
         else getYAtX_loop points targetX (i + 1))
      else None)"
  by pat_completeness auto
termination
  by (relation "measure (\<lambda>(points, targetX, i). length points - i)") auto

declare getYAtX_loop.simps [simp del]

definition getYAtX :: "DataPoint list \<Rightarrow> number \<Rightarrow> number" where
  "getYAtX points targetX =
     (if length points = 0 then 0
      else if targetX \<le> x (points ! 0) then y (points ! 0)
      else if targetX \<ge> x (points ! (length points - 1)) then y (points ! (length points - 1))
      else (case getYAtX_loop points targetX 0 of
              Some r \<Rightarrow> r
            | None \<Rightarrow> y (points ! (length points - 1))))"

section \<open>Series Interpolator: \<^verbatim>\<open>getLabelAtX\<close>\<close>

text \<open>
  \<^verbatim>\<open>p.label || ''\<close>: an absent label and the empty label both give the empty string.
\<close>

definition labelOrEmpty :: "DataPoint \<Rightarrow> string" where
  "labelOrEmpty p = (case DataPoint.label p of None \<Rightarrow> [] | Some s \<Rightarrow> s)"

text \<open>
  \<^verbatim>\<open>lines.find(l => l.isPrimary) || lines[0]\<close>: the first line whose flag is present
  and true, else the first line; \<open>None\<close> is \<^verbatim>\<open>undefined\<close>, the value of
  \<^verbatim>\<open>lines[0]\<close> on the empty array.
\<close>

definition primaryLine :: "ChartLine list \<Rightarrow> ChartLine option" where
  "primaryLine lines =
     (case find (\<lambda>l. isPrimary l = Some True) lines of
        Some l \<Rightarrow> Some l
      | None \<Rightarrow> (if 0 < length lines then Some (lines ! 0) else None))"

function getLabelAtX_loop :: "DataPoint list \<Rightarrow> number \<Rightarrow> nat \<Rightarrow> string option" where
  "getLabelAtX_loop points targetX i =
     (if i + 1 < length points then
        (if targetX \<ge> x (points ! i) \<and> targetX \<le> x (points ! (i + 1)) then
           (let t = (targetX - x (points ! i)) / (x (points ! (i + 1)) - x (points ! i))
            in Some (labelOrEmpty (if t < Fin 0.5 then points ! i else points ! (i + 1))))
         else getLabelAtX_loop points targetX (i + 1))
      else None)"
  by pat_completeness auto
termination
  by (relation "measure (\<lambda>(points, targetX, i). length points - i)") auto

declare getLabelAtX_loop.simps [simp del]

text \<open>
  The type of \<^verbatim>\<open>ChartLine\<close> makes \<^verbatim>\<open>data\<close> a required array, so
  \<^verbatim>\<open>!primaryLine?.data\<close> holds exactly when \<^verbatim>\<open>primaryLine\<close> is undefined. After
  the loop, \<^verbatim>\<open>points[points.length - 1]?.label || ''\<close> reads index \<open>-1\<close> of an empty
  array, which is undefined and gives the empty string.
\<close>

definition getLabelAtX :: "ChartLine list \<Rightarrow> number \<Rightarrow> string" where
  "getLabelAtX lines targetX =
     (case primaryLine lines of
        None \<Rightarrow> []
      | Some pl \<Rightarrow>
          (let points = data pl in
             (case getLabelAtX_loop points targetX 0 of
                Some r \<Rightarrow> r
              | None \<Rightarrow>
                  (if 0 < length points then labelOrEmpty (points ! (length points - 1))
                   else []))))"

section \<open>Coordinate Mapper and Curve Generator: \<^verbatim>\<open>generateSmoothPath\<close>\<close>

text \<open>
  The source builds the text of an SVG path: \<^verbatim>\<open>M px py\<close> followed by one
  \<^verbatim>\<open>C cp1x cp1y, cp2x cp2y, px py\<close> for each loop iteration. The model keeps the
  commands and their numbers and leaves out how a number is printed; the empty
  string is the empty list of commands.
\<close>

datatype pathCommand =
  M number number
| C number number number number number number

definition scaleX :: "number \<Rightarrow> number \<Rightarrow> number" where
  "scaleX width a = (a / Fin 100) * width"

definition scaleY :: "number \<Rightarrow> number \<Rightarrow> number" where
  "scaleY height b = height - (b / Fin 100) * height"

text \<open>
  \<^verbatim>\<open>Math.max(0, i - 1)\<close> is \<open>i - 1\<close> on \<open>nat\<close>, where \<open>0 - 1 = 0\<close>.
\<close>

function generateSmoothPath_loop ::
  "DataPoint list \<Rightarrow> number \<Rightarrow> number \<Rightarrow> nat \<Rightarrow> pathCommand list \<Rightarrow> pathCommand list" where
  "generateSmoothPath_loop points width height i path =
     (if i + 1 < length points then
        (let p0 = points ! (max 0 (i - 1));
             p1 = points ! i;
             p2 = points ! (i + 1);
             p3 = points ! (min (length points - 1) (i + 2));
             cp1x = scaleX width (x p1) + (scaleX width (x p2) - scaleX width (x p0)) / Fin 6;
             cp1y = scaleY height (y p1) + (scaleY height (y p2) - scaleY height (y p0)) / Fin 6;
             cp2x = scaleX width (x p2) - (scaleX width (x p3) - scaleX width (x p1)) / Fin 6;
             cp2y = scaleY height (y p2) - (scaleY height (y p3) - scaleY height (y p1)) / Fin 6
         in generateSmoothPath_loop points width height (i + 1)
              (path @ [C cp1x cp1y cp2x cp2y (scaleX width (x p2)) (scaleY height (y p2))]))
      else path)"
  by pat_completeness auto
termination
  by (relation "measure (\<lambda>(points, width, height, i, path). length points - i)") auto

declare generateSmoothPath_loop.simps [simp del]

definition generateSmoothPath :: "DataPoint list \<Rightarrow> number \<Rightarrow> number \<Rightarrow> pathCommand list" where
  "generateSmoothPath points width height =
     (if length points < 2 then []
      else generateSmoothPath_loop points width height 0
             [M (scaleX width (x (points ! 0))) (scaleY height (y (points ! 0)))])"

section \<open>Chart View: the series paths of \<^verbatim>\<open>MetricsChart\<close>\<close>

text \<open>
  \<^verbatim>\<open>Math.max\<close> of two numbers: \<open>NaN\<close> when one of them is \<open>NaN\<close>.
\<close>

definition Math_max :: "number \<Rightarrow> number \<Rightarrow> number" where
  "Math_max a b = (if a = NaN \<or> b = NaN then NaN else if a \<le> b then b else a)"

text \<open>
  \<^verbatim>\<open>processedLines\<close>: each line with its opacity and width filled in
  (\<^verbatim>\<open>??\<close> replaces only an absent value), in the order of \<^verbatim>\<open>lines\<close>.
\<close>

definition processedLine :: "ChartLine \<Rightarrow> nat \<Rightarrow> ChartLine" where
  "processedLine line idx =
     line\<lparr>lineOpacity :=
            Some (case lineOpacity line of
                    Some v \<Rightarrow> v
                  | None \<Rightarrow>
                      (if isPrimary line = Some True then Fin 0.9
                       else Math_max (Fin 0.15) (Fin 0.4 - Fin (real idx) * Fin 0.08))),
          lineWidth :=
            Some (case lineWidth line of
                    Some v \<Rightarrow> v
                  | None \<Rightarrow> (if isPrimary line = Some True then Fin 1.25 else Fin 0.75))\<rparr>"

definition processedLines :: "ChartLine list \<Rightarrow> ChartLine list" where
  "processedLines lines = map (\<lambda>(line, idx). processedLine line idx) (zip lines [0 ..< length lines])"

text \<open>
  One \<^verbatim>\<open><path>\<close> element of the SVG: its React key, its path data, and the opacity and
  width of its stroke. The list \<open>seriesPaths\<close> is the children that
  \<^verbatim>\<open>[...processedLines].reverse().map(...)\<close> emits, in document order: a later element
  is painted over an earlier one.
\<close>

record SvgPath =
  key :: string
  d :: "pathCommand list"
  strokeOpacity :: "number option"
  strokeWidth :: "number option"

definition chartWidth :: number where
  "chartWidth = Fin 280"

definition seriesPaths :: "ChartLine list \<Rightarrow> number \<Rightarrow> SvgPath list" where
  "seriesPaths lines chartHeight =
     map (\<lambda>line. \<lparr>key = id' line,
                    d = generateSmoothPath (data line) chartWidth chartHeight,
                    strokeOpacity = lineOpacity line,
                    strokeWidth = lineWidth line\<rparr>)
         (rev (processedLines lines))"

section \<open>Vocabulary of the properties\<close>

text \<open>
  The predicates in which the properties below are stated, and the example data they
  are evaluated on. A point sequence is strictly ascending when the JavaScript
  comparison \<^verbatim>\<open><\<close> holds between the \<open>x\<close> of every earlier and every later point,
  finite when every coordinate is a finite number, and normalized when every coordinate
  lies in the range from 0 to 100 of the data model.
\<close>

definition strictlyAscending :: "DataPoint list \<Rightarrow> bool" where
  "strictlyAscending points = sorted_wrt (\<lambda>p p'. x p < x p') points"



definition normalized :: "DataPoint list \<Rightarrow> bool" where
  "normalized points =
     (\<forall>p \<in> set points. Fin 0 \<le> x p \<and> x p \<le> Fin 100 \<and> Fin 0 \<le> y p \<and> y p \<le> Fin 100)"

definition sortedByX :: "DataPoint list \<Rightarrow> bool" where
  "sortedByX points = sorted_wrt (\<lambda>p p'. x p \<le> x p') points"

definition exampleSeries :: "DataPoint list" where
  "exampleSeries =
     [\<lparr>x = Fin 0, y = Fin 0, label = None\<rparr>,
      \<lparr>x = Fin 50, y = Fin 100, label = None\<rparr>,
      \<lparr>x = Fin 100, y = Fin 0, label = None\<rparr>]"

definition tiedSeries :: "DataPoint list" where
  "tiedSeries =
     [\<lparr>x = Fin 5, y = Fin 1, label = None\<rparr>,
      \<lparr>x = Fin 5, y = Fin 2, label = None\<rparr>]"

definition brackets :: "DataPoint list \<Rightarrow> number \<Rightarrow> nat \<Rightarrow> bool" where
  "brackets points targetX i = (targetX \<ge> x (points ! i) \<and> targetX \<le> x (points ! (i + 1)))"

definition firstSegment :: "DataPoint list \<Rightarrow> number \<Rightarrow> nat option" where
  "firstSegment points targetX = find (brackets points targetX) [0 ..< length points - 1]"

definition twoPointLine :: "string \<Rightarrow> string \<Rightarrow> ChartLine" where
  "twoPointLine a b =
     \<lparr>id' = ''two'',
      data = [\<lparr>x = Fin 0, y = Fin 0, label = Some a\<rparr>, \<lparr>x = Fin 100, y = Fin 0, label = Some b\<rparr>],
      label = ''Two'', color = ''#c9b870'',
      lineOpacity = None, lineWidth = None, isPrimary = None\<rparr>"

definition flaggedLine :: "DataPoint list \<Rightarrow> ChartLine" where
  "flaggedLine points =
     \<lparr>id' = ''main'', data = points, label = ''Main'', color = ''#d4a89a'',
      lineOpacity = None, lineWidth = None, isPrimary = Some True\<rparr>"

text \<open>
  The curve as the specification words it: the mapping \<open>toPixel\<close> of a data point to
  the canvas, and the cubic segment number \<open>i\<close> with its two control points, where the
  previous point of the first segment is the first point and the next point of the
  last segment is the last point. These two definitions follow the specification and
  are compared with \<open>generateSmoothPath\<close> below.
\<close>

definition toPixel :: "DataPoint \<Rightarrow> number \<Rightarrow> number \<Rightarrow> number \<times> number" where
  "toPixel p canvasWidth canvasHeight =
     ((x p / Fin 100) * canvasWidth, canvasHeight - (y p / Fin 100) * canvasHeight)"

definition specSegment :: "DataPoint list \<Rightarrow> number \<Rightarrow> number \<Rightarrow> nat \<Rightarrow> pathCommand" where
  "specSegment points width height i =
     (let p0 = toPixel (points ! (if i = 0 then 0 else i - 1)) width height;
          p1 = toPixel (points ! i) width height;
          p2 = toPixel (points ! (i + 1)) width height;
          p3 = toPixel (points ! (if i + 2 < length points then i + 2 else length points - 1))
                 width height
      in C (fst p1 + (fst p2 - fst p0) / Fin 6) (snd p1 + (snd p2 - snd p0) / Fin 6)
           (fst p2 - (fst p3 - fst p1) / Fin 6) (snd p2 - (snd p3 - snd p1) / Fin 6)
           (fst p2) (snd p2))"

definition twoLines :: "ChartLine list" where
  "twoLines = [twoPointLine ''L'' ''R'', flaggedLine exampleSeries]"

section \<open>Order and arithmetic of numbers\<close>

lemma number_less_imp_le: "(a::number) < b \<Longrightarrow> a \<le> b"
  by (cases a; cases b) auto

lemma number_less_not_ge: "(a::number) < b \<Longrightarrow> \<not> b \<le> a"
  by (cases a; cases b) auto

lemma number_le_less_trans: "(a::number) \<le> b \<Longrightarrow> b < c \<Longrightarrow> a < c"
  by (cases a; cases b; cases c) auto


lemma find_upt_step:
  "k < m \<Longrightarrow> find P [k ..< m] = (if P k then Some k else find P [k + 1 ..< m])"
  by (simp add: upt_conv_Cons)

lemma getYAtX_loop_find:
  "getYAtX_loop points targetX k =
     map_option
       (\<lambda>i. y (points ! i) +
            ((targetX - x (points ! i)) / (x (points ! (i + 1)) - x (points ! i))) *
            (y (points ! (i + 1)) - y (points ! i)))
       (find (brackets points targetX) [k ..< length points - 1])"
proof (induction points targetX k rule: getYAtX_loop.induct)
  case (1 points targetX i)
  show ?case
  proof (cases "i + 1 < length points")
    case True
    then have lt: "i < length points - 1" by simp
    show ?thesis
    proof (cases "brackets points targetX i")
      case True
      then show ?thesis using lt
        by (subst getYAtX_loop.simps) (simp add: find_upt_step brackets_def Let_def)
    next
      case False
      then have nb: "\<not> (x (points ! i) \<le> targetX \<and> targetX \<le> x (points ! (i + 1)))"
        by (simp add: brackets_def)
      have step: "getYAtX_loop points targetX i = getYAtX_loop points targetX (i + 1)"
        using True nb by (subst getYAtX_loop.simps) auto
      show ?thesis unfolding step using "1.IH"[OF True nb] lt False
        by (simp add: find_upt_step)
    qed
  next
    case False
    then show ?thesis by (subst getYAtX_loop.simps) simp
  qed
qed

lemma getLabelAtX_loop_find:
  "getLabelAtX_loop points targetX k =
     map_option
       (\<lambda>i. labelOrEmpty
              (if (targetX - x (points ! i)) / (x (points ! (i + 1)) - x (points ! i)) < Fin 0.5
               then points ! i else points ! (i + 1)))
       (find (brackets points targetX) [k ..< length points - 1])"
proof (induction points targetX k rule: getLabelAtX_loop.induct)
  case (1 points targetX i)
  show ?case
  proof (cases "i + 1 < length points")
    case True
    then have lt: "i < length points - 1" by simp
    show ?thesis
    proof (cases "brackets points targetX i")
      case True
      then show ?thesis using lt
        by (subst getLabelAtX_loop.simps) (simp add: find_upt_step brackets_def Let_def)
    next
      case False
      then have nb: "\<not> (x (points ! i) \<le> targetX \<and> targetX \<le> x (points ! (i + 1)))"
        by (simp add: brackets_def)
      have step: "getLabelAtX_loop points targetX i = getLabelAtX_loop points targetX (i + 1)"
        using True nb by (subst getLabelAtX_loop.simps) auto
      show ?thesis unfolding step using "1.IH"[OF True nb] lt False
        by (simp add: find_upt_step)
    qed
  next
    case False
    then show ?thesis by (subst getLabelAtX_loop.simps) simp
  qed
qed

lemma firstSegment_Some_iff:
  "firstSegment points targetX = Some i \<longleftrightarrow>
     i + 1 < length points \<and> brackets points targetX i \<and> (\<forall>j<i. \<not> brackets points targetX j)"
  unfolding firstSegment_def find_Some_iff
  by (auto simp: less_diff_conv)

lemma firstSegment_None_iff:
  "firstSegment points targetX = None \<longleftrightarrow>
     (\<forall>i. i + 1 < length points \<longrightarrow> \<not> brackets points targetX i)"
  unfolding firstSegment_def find_None_iff
  by (auto simp: less_diff_conv)

lemma strictlyAscending_nth:
  "strictlyAscending points \<Longrightarrow> i < j \<Longrightarrow> j < length points \<Longrightarrow> x (points ! i) < x (points ! j)"
  unfolding strictlyAscending_def by (rule sorted_wrt_nth_less)

text \<open>Existence of a bracketing segment strictly inside the range.\<close>

lemma exists_bracket:
  assumes sa: "strictlyAscending points"
    and lo: "x (points ! 0) < targetX"
    and hi: "targetX < x (points ! (length points - 1))"
  shows "\<exists>i. i + 1 < length points \<and> brackets points targetX i"
proof -
  let ?n = "length points"
  have n2: "2 \<le> ?n"
  proof (rule ccontr)
    assume "\<not> 2 \<le> ?n"
    then have "?n - 1 = 0" by simp
    then show False using lo hi number_less_not_ge number_less_imp_le by metis
  qed
  define S where "S = {i. i < ?n \<and> x (points ! i) \<le> targetX}"
  have fin: "finite S" unfolding S_def by simp
  have "0 \<in> S" using lo n2 number_less_imp_le by (auto simp: S_def)
  then have ne: "S \<noteq> {}" by blast
  define m where "m = Max S"
  have mS: "m \<in> S" unfolding m_def using fin ne by (rule Max_in)
  have mmax: "\<And>j. j \<in> S \<Longrightarrow> j \<le> m" unfolding m_def using fin by (rule Max_ge)
  have mn: "m < ?n" and mle: "x (points ! m) \<le> targetX" using mS by (simp_all add: S_def)
  have "m \<noteq> ?n - 1" using hi mle number_less_not_ge by blast
  then have m1: "m + 1 < ?n" using mn by simp
  have "m + 1 \<notin> S" using mmax[of "m + 1"] by auto
  then have nle: "\<not> x (points ! (m + 1)) \<le> targetX" using m1 by (simp add: S_def)
  have "x (points ! m) < x (points ! (m + 1))" using strictlyAscending_nth[OF sa, of m "m + 1"] m1 by simp
  have "targetX < x (points ! (m + 1))"
    using nle lo \<open>x (points ! m) < x (points ! (m + 1))\<close>
    by (cases targetX; cases "x (points ! (m + 1))"; cases "x (points ! 0)"; cases "x (points ! m)") auto
  then have "brackets points targetX m" using mle number_less_imp_le by (simp add: brackets_def)
  then show ?thesis using m1 by blast
qed


lemma getYAtX_inner:
  assumes "points \<noteq> []" "\<not> targetX \<le> x (points ! 0)"
    and "\<not> x (points ! (length points - 1)) \<le> targetX"
    and "firstSegment points targetX = Some i"
  shows "getYAtX points targetX =
     y (points ! i) +
       ((targetX - x (points ! i)) / (x (points ! (i + 1)) - x (points ! i))) *
       (y (points ! (i + 1)) - y (points ! i))"
  using assms unfolding getYAtX_def getYAtX_loop_find firstSegment_def by simp




lemma getYAtX_exampleSeries:
  "getYAtX exampleSeries (Fin 25) = Fin 50"
  "getYAtX exampleSeries (Fin 75) = Fin 50"
  "getYAtX exampleSeries (Fin 50) = Fin 100"
  by (simp_all add: getYAtX_def exampleSeries_def getYAtX_loop.simps minus_number_def)

text \<open>
  Claim C1. For a point sequence sorted strictly ascending by \<open>x\<close> and a \<open>targetX\<close>
  strictly between the first and the last \<open>x\<close>, \<^verbatim>\<open>getYAtX\<close> returns
  \<open>p\<^sub>i.y + t * (p\<^sub>i\<^sub>+\<^sub>1.y - p\<^sub>i.y)\<close> with \<open>t = (targetX - p\<^sub>i.x) / (p\<^sub>i\<^sub>+\<^sub>1.x - p\<^sub>i.x)\<close>,
  where \<open>i\<close> is the lowest index of a segment with \<open>p\<^sub>i.x \<le> targetX \<le> p\<^sub>i\<^sub>+\<^sub>1.x\<close>. On
  the series \<open>(0,0), (50,100), (100,0)\<close> the value at 25 is 50, at 75 is 50 and at 50
  is 100.
\<close>

theorem getYAtX_interpolates:
  "(strictlyAscending points \<and> points \<noteq> [] \<and>
    x (points ! 0) < targetX \<and> targetX < x (points ! (length points - 1)) \<longrightarrow>
      (\<exists>i. i + 1 < length points \<and>
           x (points ! i) \<le> targetX \<and> targetX \<le> x (points ! (i + 1)) \<and>
           (\<forall>j<i. \<not> (x (points ! j) \<le> targetX \<and> targetX \<le> x (points ! (j + 1)))) \<and>
           getYAtX points targetX =
             y (points ! i) +
               ((targetX - x (points ! i)) / (x (points ! (i + 1)) - x (points ! i))) *
               (y (points ! (i + 1)) - y (points ! i)))) \<and>
   getYAtX exampleSeries (Fin 25) = Fin 50 \<and>
   getYAtX exampleSeries (Fin 75) = Fin 50 \<and>
   getYAtX exampleSeries (Fin 50) = Fin 100"
proof -
  have general: "\<exists>i. i + 1 < length points \<and>
           x (points ! i) \<le> targetX \<and> targetX \<le> x (points ! (i + 1)) \<and>
           (\<forall>j<i. \<not> (x (points ! j) \<le> targetX \<and> targetX \<le> x (points ! (j + 1)))) \<and>
           getYAtX points targetX =
             y (points ! i) +
               ((targetX - x (points ! i)) / (x (points ! (i + 1)) - x (points ! i))) *
               (y (points ! (i + 1)) - y (points ! i))"
    if sa: "strictlyAscending points" and ne: "points \<noteq> []"
      and lo: "x (points ! 0) < targetX" and hi: "targetX < x (points ! (length points - 1))"
  proof -
    from exists_bracket[OF sa lo hi]
    have "\<exists>i. i + 1 < length points \<and> brackets points targetX i" .
    then obtain i where i: "i + 1 < length points \<and> brackets points targetX i"
      and least: "\<forall>j<i. \<not> (j + 1 < length points \<and> brackets points targetX j)"
      using exists_least_iff[of "\<lambda>i. i + 1 < length points \<and> brackets points targetX i"] by blast
    have nb: "\<forall>j<i. \<not> brackets points targetX j" using least i by auto
    have fs: "firstSegment points targetX = Some i"
      using i nb by (simp add: firstSegment_Some_iff)
    have g1: "\<not> targetX \<le> x (points ! 0)" using lo by (rule number_less_not_ge)
    have g2: "\<not> x (points ! (length points - 1)) \<le> targetX" using hi by (rule number_less_not_ge)
    show ?thesis
      using getYAtX_inner[OF ne g1 g2 fs] i nb by (auto simp: brackets_def)
  qed
  show ?thesis using general getYAtX_exampleSeries by blast
qed

theorem getYAtX_interpolates_witness:
  "strictlyAscending exampleSeries \<and> exampleSeries \<noteq> [] \<and>
   x (exampleSeries ! 0) < Fin 25 \<and> Fin 25 < x (exampleSeries ! (length exampleSeries - 1)) \<and>
   (\<exists>i. i + 1 < length exampleSeries \<and>
        x (exampleSeries ! i) \<le> Fin 25 \<and> Fin 25 \<le> x (exampleSeries ! (i + 1)) \<and>
        getYAtX exampleSeries (Fin 25) =
          y (exampleSeries ! i) +
            ((Fin 25 - x (exampleSeries ! i)) / (x (exampleSeries ! (i + 1)) - x (exampleSeries ! i))) *
            (y (exampleSeries ! (i + 1)) - y (exampleSeries ! i)))"
proof -
  have h: "strictlyAscending exampleSeries \<and> exampleSeries \<noteq> [] \<and>
     x (exampleSeries ! 0) < Fin 25 \<and> Fin 25 < x (exampleSeries ! (length exampleSeries - 1))"
    by (simp add: strictlyAscending_def exampleSeries_def)
  from getYAtX_interpolates[of exampleSeries "Fin 25"] h show ?thesis by blast
qed





section \<open>Defaults of \<^verbatim>\<open>getYAtX\<close>\<close>

text \<open>
  The two points of \<open>tiedSeries\<close> share \<open>x = 5\<close>, so the sequence is sorted by
  \<open>x\<close>, and \<open>targetX = 5\<close> is at the first and at the last \<open>x\<close> at once. The
  test against the first point comes first in \<^verbatim>\<open>getYAtX\<close>: the result is the first
  \<open>y\<close>, which is 1, and not the last \<open>y\<close>, which is 2.
\<close>

theorem getYAtX_clamp_right_counterexample:
  "tiedSeries \<noteq> [] \<and> sortedByX tiedSeries \<and>
   Fin 5 \<ge> x (tiedSeries ! (length tiedSeries - 1)) \<and>
   getYAtX tiedSeries (Fin 5) \<noteq> y (tiedSeries ! (length tiedSeries - 1))"
  by (simp add: sortedByX_def tiedSeries_def getYAtX_def)

lemma getYAtX_empty: "getYAtX [] targetX = 0"
  by (simp add: getYAtX_def)

lemma getYAtX_clamp_left:
  "points \<noteq> [] \<Longrightarrow> targetX \<le> x (points ! 0) \<Longrightarrow> getYAtX points targetX = y (points ! 0)"
  by (simp add: getYAtX_def)

lemma getYAtX_clamp_right:
  "points \<noteq> [] \<Longrightarrow> \<not> targetX \<le> x (points ! 0) \<Longrightarrow> targetX \<ge> x (points ! (length points - 1))
   \<Longrightarrow> getYAtX points targetX = y (points ! (length points - 1))"
  by (simp add: getYAtX_def)

lemma getYAtX_clamp_right_strict:
  assumes sa: "strictlyAscending points" and ne: "points \<noteq> []"
    and ge: "targetX \<ge> x (points ! (length points - 1))"
  shows "getYAtX points targetX = y (points ! (length points - 1))"
proof (cases "targetX \<le> x (points ! 0)")
  case False
  show ?thesis using ne False ge by (rule getYAtX_clamp_right)
next
  case True
  have "length points - 1 = 0"
  proof (rule ccontr)
    assume "length points - 1 \<noteq> 0"
    then have "x (points ! 0) < x (points ! (length points - 1))"
      using strictlyAscending_nth[OF sa, of 0 "length points - 1"] by simp
    then have "targetX < x (points ! (length points - 1))"
      using True by (rule number_le_less_trans[rotated])
    then show False using ge number_less_not_ge by blast
  qed
  then show ?thesis using True ne by (simp add: getYAtX_def)
qed

lemma normalized_nth:
  "normalized points \<Longrightarrow> k < length points \<Longrightarrow> Fin 0 \<le> x (points ! k) \<and> x (points ! k) \<le> Fin 100"
  by (simp add: normalized_def)

lemma getYAtX_normalized_outside:
  assumes nm: "normalized points" and ne: "points \<noteq> []"
  shows "getYAtX points (Fin (- 50)) = y (points ! 0)"
    and "getYAtX points (Fin 500) = y (points ! (length points - 1))"
proof -
  have k0: "0 < length points" and kl: "length points - 1 < length points" using ne by simp_all
  have a: "Fin 0 \<le> x (points ! 0)" "x (points ! 0) \<le> Fin 100"
    using normalized_nth[OF nm k0] by simp_all
  have b: "Fin 0 \<le> x (points ! (length points - 1))" "x (points ! (length points - 1)) \<le> Fin 100"
    using normalized_nth[OF nm kl] by simp_all
  have "Fin (- 50) \<le> x (points ! 0)" using a by (cases "x (points ! 0)") auto
  then show "getYAtX points (Fin (- 50)) = y (points ! 0)" using ne by (rule getYAtX_clamp_left[rotated])
  have "\<not> Fin 500 \<le> x (points ! 0)" using a by (cases "x (points ! 0)") auto
  moreover have "x (points ! (length points - 1)) \<le> Fin 500"
    using b by (cases "x (points ! (length points - 1))") auto
  ultimately show "getYAtX points (Fin 500) = y (points ! (length points - 1))"
    using ne getYAtX_clamp_right by blast
qed

text \<open>
  Claim C4, as amended. \<^verbatim>\<open>getYAtX\<close> has no error case. On the empty sequence it
  returns 0. On a non-empty sequence it returns the first \<open>y\<close> when \<open>targetX\<close> is at or
  before the first \<open>x\<close>; it returns the last \<open>y\<close> when \<open>targetX\<close> is at or after the
  last \<open>x\<close> and not at or before the first \<open>x\<close>, which covers every \<open>targetX\<close> at or
  after the last \<open>x\<close> of a strictly ascending sequence. On normalized data the value
  at \<open>-50\<close> is the first \<open>y\<close> and the value at 500 is the last \<open>y\<close>.
\<close>

theorem getYAtX_defaults:
  "getYAtX [] targetX = 0 \<and>
   (points \<noteq> [] \<and> targetX \<le> x (points ! 0) \<longrightarrow> getYAtX points targetX = y (points ! 0)) \<and>
   (points \<noteq> [] \<and> \<not> targetX \<le> x (points ! 0) \<and> targetX \<ge> x (points ! (length points - 1)) \<longrightarrow>
      getYAtX points targetX = y (points ! (length points - 1))) \<and>
   (points \<noteq> [] \<and> strictlyAscending points \<and> targetX \<ge> x (points ! (length points - 1)) \<longrightarrow>
      getYAtX points targetX = y (points ! (length points - 1))) \<and>
   (points \<noteq> [] \<and> normalized points \<longrightarrow>
      getYAtX points (Fin (- 50)) = y (points ! 0) \<and>
      getYAtX points (Fin 500) = y (points ! (length points - 1)))"
proof (intro conjI impI)
  show "getYAtX [] targetX = 0" by (rule getYAtX_empty)
next
  assume "points \<noteq> [] \<and> targetX \<le> x (points ! 0)"
  then show "getYAtX points targetX = y (points ! 0)" by (simp add: getYAtX_clamp_left)
next
  assume "points \<noteq> [] \<and> \<not> targetX \<le> x (points ! 0) \<and> targetX \<ge> x (points ! (length points - 1))"
  then show "getYAtX points targetX = y (points ! (length points - 1))"
    by (simp add: getYAtX_clamp_right)
next
  assume "points \<noteq> [] \<and> strictlyAscending points \<and> targetX \<ge> x (points ! (length points - 1))"
  then show "getYAtX points targetX = y (points ! (length points - 1))"
    by (simp add: getYAtX_clamp_right_strict)
next
  assume "points \<noteq> [] \<and> normalized points"
  then show "getYAtX points (Fin (- 50)) = y (points ! 0)"
    by (simp add: getYAtX_normalized_outside)
next
  assume "points \<noteq> [] \<and> normalized points"
  then show "getYAtX points (Fin 500) = y (points ! (length points - 1))"
    by (simp add: getYAtX_normalized_outside)
qed

theorem getYAtX_defaults_witness:
  "exampleSeries \<noteq> [] \<and> strictlyAscending exampleSeries \<and> normalized exampleSeries \<and>
   Fin (- 50) \<le> x (exampleSeries ! 0) \<and>
   \<not> Fin 500 \<le> x (exampleSeries ! 0) \<and>
   Fin 500 \<ge> x (exampleSeries ! (length exampleSeries - 1)) \<and>
   Fin 100 \<ge> x (exampleSeries ! (length exampleSeries - 1)) \<and>
   getYAtX exampleSeries (Fin (- 50)) = y (exampleSeries ! 0) \<and>
   getYAtX exampleSeries (Fin 500) = y (exampleSeries ! (length exampleSeries - 1)) \<and>
   getYAtX exampleSeries (Fin 100) = y (exampleSeries ! (length exampleSeries - 1))"
proof -
  have h: "exampleSeries \<noteq> []" "strictlyAscending exampleSeries" "normalized exampleSeries"
    "Fin (- 50) \<le> x (exampleSeries ! 0)" "\<not> Fin 500 \<le> x (exampleSeries ! 0)"
    "Fin 500 \<ge> x (exampleSeries ! (length exampleSeries - 1))"
    "Fin 100 \<ge> x (exampleSeries ! (length exampleSeries - 1))"
    by (simp_all add: exampleSeries_def strictlyAscending_def normalized_def)
  have left: "getYAtX exampleSeries (Fin (- 50)) = y (exampleSeries ! 0)"
    using getYAtX_defaults[of "Fin (- 50)" exampleSeries] h(1,4) by simp
  have right: "getYAtX exampleSeries (Fin 500) = y (exampleSeries ! (length exampleSeries - 1))"
    using getYAtX_defaults[of "Fin 500" exampleSeries] h(1,5,6) by simp
  have last: "getYAtX exampleSeries (Fin 100) = y (exampleSeries ! (length exampleSeries - 1))"
    using getYAtX_defaults[of "Fin 100" exampleSeries] h(1,2,7) by simp
  have outside: "getYAtX exampleSeries (Fin (- 50)) = y (exampleSeries ! 0) \<and>
      getYAtX exampleSeries (Fin 500) = y (exampleSeries ! (length exampleSeries - 1))"
    using getYAtX_defaults[of "Fin 0" exampleSeries] h(1,3) by simp
  show ?thesis using left right last h by simp
qed

section \<open>Labels: \<^verbatim>\<open>getLabelAtX\<close>\<close>

lemma primaryLine_flagged:
  assumes "\<exists>l \<in> set lines. isPrimary l = Some True"
  shows "\<exists>k<length lines. primaryLine lines = Some (lines ! k) \<and>
           isPrimary (lines ! k) = Some True \<and> (\<forall>j<k. isPrimary (lines ! j) \<noteq> Some True)"
proof -
  from assms obtain l where f: "find (\<lambda>l. isPrimary l = Some True) lines = Some l"
    by (cases "find (\<lambda>l. isPrimary l = Some True) lines") (auto simp: find_None_iff)
  then obtain k where k: "k < length lines" "isPrimary (lines ! k) = Some True" "l = lines ! k"
      "\<forall>j<k. isPrimary (lines ! j) \<noteq> Some True"
    unfolding find_Some_iff by blast
  have "primaryLine lines = Some (lines ! k)" using f k(3) by (simp add: primaryLine_def)
  then show ?thesis using k by blast
qed

lemma primaryLine_unflagged:
  assumes "\<forall>l \<in> set lines. isPrimary l \<noteq> Some True" and "lines \<noteq> []"
  shows "primaryLine lines = Some (lines ! 0)"
proof -
  have "find (\<lambda>l. isPrimary l = Some True) lines = None"
    using assms(1) by (simp add: find_None_iff)
  then show ?thesis using assms(2) by (simp add: primaryLine_def)
qed

lemma getLabelAtX_primary:
  "primaryLine lines = Some pl \<Longrightarrow>
   getLabelAtX lines targetX =
     (case firstSegment (data pl) targetX of
        Some i \<Rightarrow>
          labelOrEmpty
            (if (targetX - x (data pl ! i)) / (x (data pl ! (i + 1)) - x (data pl ! i)) < Fin 0.5
             then data pl ! i else data pl ! (i + 1))
      | None \<Rightarrow> (if data pl = [] then [] else labelOrEmpty (data pl ! (length (data pl) - 1))))"
  unfolding getLabelAtX_def getLabelAtX_loop_find firstSegment_def
  by (simp add: Let_def split: option.splits)

lemma getLabelAtX_twoPointLine:
  "getLabelAtX [twoPointLine a b] (Fin 49.9) = a"
  "getLabelAtX [twoPointLine a b] (Fin 50.0) = b"
  "getLabelAtX [twoPointLine a b] (Fin 50.1) = b"
  by (simp_all add: getLabelAtX_def primaryLine_def twoPointLine_def getLabelAtX_loop.simps
        labelOrEmpty_def minus_number_def)

text \<open>
  Claim C2. \<^verbatim>\<open>getLabelAtX\<close> takes as primary series the first one flagged
  \<^verbatim>\<open>isPrimary\<close>, or the first series of the collection when none is flagged. For a
  \<open>targetX\<close> bracketed by a segment of that series, with \<open>i\<close> the first such segment
  and \<open>t = (targetX - p\<^sub>i.x) / (p\<^sub>i\<^sub>+\<^sub>1.x - p\<^sub>i.x)\<close>, it returns the label of the left
  point when \<open>t < 0.5\<close> and the label of the right point when \<open>t \<ge> 0.5\<close>. With two
  points at \<open>x = 0\<close> and \<open>x = 100\<close>, the label at 49.9 is the left one and the labels
  at 50.0 and at 50.1 are the right one.
\<close>

theorem getLabelAtX_nearest:
  "((\<exists>l \<in> set lines. isPrimary l = Some True) \<longrightarrow>
      (\<exists>k<length lines. primaryLine lines = Some (lines ! k) \<and>
          isPrimary (lines ! k) = Some True \<and> (\<forall>j<k. isPrimary (lines ! j) \<noteq> Some True))) \<and>
   ((\<forall>l \<in> set lines. isPrimary l \<noteq> Some True) \<and> lines \<noteq> [] \<longrightarrow>
      primaryLine lines = Some (lines ! 0)) \<and>
   (primaryLine lines = Some pl \<and> i + 1 < length (data pl) \<and>
    x (data pl ! i) \<le> targetX \<and> targetX \<le> x (data pl ! (i + 1)) \<and>
    (\<forall>j<i. \<not> (x (data pl ! j) \<le> targetX \<and> targetX \<le> x (data pl ! (j + 1)))) \<longrightarrow>
      ((targetX - x (data pl ! i)) / (x (data pl ! (i + 1)) - x (data pl ! i)) < Fin 0.5 \<longrightarrow>
         getLabelAtX lines targetX = labelOrEmpty (data pl ! i)) \<and>
      ((targetX - x (data pl ! i)) / (x (data pl ! (i + 1)) - x (data pl ! i)) \<ge> Fin 0.5 \<longrightarrow>
         getLabelAtX lines targetX = labelOrEmpty (data pl ! (i + 1)))) \<and>
   getLabelAtX [twoPointLine a b] (Fin 49.9) = a \<and>
   getLabelAtX [twoPointLine a b] (Fin 50.0) = b \<and>
   getLabelAtX [twoPointLine a b] (Fin 50.1) = b"
proof -
  have seg: "((targetX - x (data pl ! i)) / (x (data pl ! (i + 1)) - x (data pl ! i)) < Fin 0.5 \<longrightarrow>
         getLabelAtX lines targetX = labelOrEmpty (data pl ! i)) \<and>
      ((targetX - x (data pl ! i)) / (x (data pl ! (i + 1)) - x (data pl ! i)) \<ge> Fin 0.5 \<longrightarrow>
         getLabelAtX lines targetX = labelOrEmpty (data pl ! (i + 1)))"
    if pl: "primaryLine lines = Some pl" and i1: "i + 1 < length (data pl)"
      and b: "x (data pl ! i) \<le> targetX" "targetX \<le> x (data pl ! (i + 1))"
      and nb: "\<forall>j<i. \<not> (x (data pl ! j) \<le> targetX \<and> targetX \<le> x (data pl ! (j + 1)))"
  proof -
    have fs: "firstSegment (data pl) targetX = Some i"
      using i1 b nb by (simp add: firstSegment_Some_iff brackets_def)
    have excl: "\<not> (t < Fin 0.5 \<and> Fin 0.5 \<le> t)" for t :: number
      by (cases t) auto
    show ?thesis using excl getLabelAtX_primary[OF pl, of targetX] fs by auto
  qed
  show ?thesis
    using primaryLine_flagged[of lines] primaryLine_unflagged[of lines] seg
      getLabelAtX_twoPointLine[of a b]
    by (intro conjI impI) (simp_all del: One_nat_def)
qed

theorem getLabelAtX_nearest_witness:
  "primaryLine [twoPointLine ''L'' ''R'', flaggedLine exampleSeries] = Some (flaggedLine exampleSeries) \<and>
   primaryLine [twoPointLine ''L'' ''R''] = Some (twoPointLine ''L'' ''R'') \<and>
   getLabelAtX [twoPointLine ''L'' ''R''] (Fin 30) = ''L'' \<and>
   getLabelAtX [twoPointLine ''L'' ''R''] (Fin 70) = ''R''"
proof -
  define two where "two = twoPointLine ''L'' ''R''"
  define ls where "ls = [two, flaggedLine exampleSeries]"
  have two_simps: "data two = [\<lparr>x = Fin 0, y = Fin 0, label = Some ''L''\<rparr>,
      \<lparr>x = Fin 100, y = Fin 0, label = Some ''R''\<rparr>]" "isPrimary two = None"
    by (simp_all add: two_def twoPointLine_def)
  have fl: "\<exists>l \<in> set ls. isPrimary l = Some True" by (simp add: ls_def flaggedLine_def)
  have "\<exists>k<length ls. primaryLine ls = Some (ls ! k) \<and>
          isPrimary (ls ! k) = Some True \<and> (\<forall>j<k. isPrimary (ls ! j) \<noteq> Some True)"
    using fl by (rule mp[OF getLabelAtX_nearest[where lines = ls, THEN conjunct1]])
  then obtain k where k: "k < length ls" "primaryLine ls = Some (ls ! k)"
      "isPrimary (ls ! k) = Some True"
    by blast
  have "k = 1"
  proof (rule ccontr)
    assume "k \<noteq> 1"
    then have "k = 0" using k(1) by (simp add: ls_def)
    then show False using k(3) by (simp add: ls_def two_simps)
  qed
  then have a: "primaryLine ls = Some (flaggedLine exampleSeries)" using k(2) by (simp add: ls_def)
  have nf: "(\<forall>l \<in> set [two]. isPrimary l \<noteq> Some True) \<and> [two] \<noteq> []"
    by (simp add: two_simps)
  have "primaryLine [two] = Some ([two] ! 0)"
    using nf by (rule mp[OF getLabelAtX_nearest[where lines = "[two]", THEN conjunct2, THEN conjunct1]])
  then have b: "primaryLine [two] = Some two" by simp
  have h30: "primaryLine [two] = Some two \<and> 0 + 1 < length (data two) \<and>
    x (data two ! 0) \<le> Fin 30 \<and> Fin 30 \<le> x (data two ! (0 + 1)) \<and>
    (\<forall>j<0. \<not> (x (data two ! j) \<le> Fin 30 \<and> Fin 30 \<le> x (data two ! (j + 1))))"
    using b by (simp add: two_simps)
  have h70: "primaryLine [two] = Some two \<and> 0 + 1 < length (data two) \<and>
    x (data two ! 0) \<le> Fin 70 \<and> Fin 70 \<le> x (data two ! (0 + 1)) \<and>
    (\<forall>j<0. \<not> (x (data two ! j) \<le> Fin 70 \<and> Fin 70 \<le> x (data two ! (j + 1))))"
    using b by (simp add: two_simps)
  have t30: "(Fin 30 - x (data two ! 0)) / (x (data two ! (0 + 1)) - x (data two ! 0)) < Fin 0.5"
    by (simp add: two_simps minus_number_def)
  have t70: "(Fin 70 - x (data two ! 0)) / (x (data two ! (0 + 1)) - x (data two ! 0)) \<ge> Fin 0.5"
    by (simp add: two_simps minus_number_def)
  note seg30 = getLabelAtX_nearest[where lines = "[two]" and pl = two and i = 0
      and targetX = "Fin 30", THEN conjunct2, THEN conjunct2, THEN conjunct1]
  note seg70 = getLabelAtX_nearest[where lines = "[two]" and pl = two and i = 0
      and targetX = "Fin 70", THEN conjunct2, THEN conjunct2, THEN conjunct1]
  have "getLabelAtX [two] (Fin 30) = labelOrEmpty (data two ! 0)"
    using mp[OF seg30 h30] t30 by (rule conjunct1[THEN mp])
  then have c: "getLabelAtX [two] (Fin 30) = ''L''"
    by (simp add: two_simps labelOrEmpty_def)
  have "getLabelAtX [two] (Fin 70) = labelOrEmpty (data two ! (0 + 1))"
    using mp[OF seg70 h70] t70 by (rule conjunct2[THEN mp])
  then have d: "getLabelAtX [two] (Fin 70) = ''R''"
    by (simp add: two_simps labelOrEmpty_def)
  show ?thesis using a b c d by (simp add: ls_def two_def)
qed

lemma number_le_less_not_ge: "(a::number) \<le> b \<Longrightarrow> b < c \<Longrightarrow> \<not> c \<le> a"
  by (cases a; cases b; cases c) auto

lemma sortedByX_nth:
  "sortedByX points \<Longrightarrow> i < j \<Longrightarrow> j < length points \<Longrightarrow> x (points ! i) \<le> x (points ! j)"
  unfolding sortedByX_def by (rule sorted_wrt_nth_less)

lemma no_bracket_beyond_last:
  assumes sb: "sortedByX points" and gt: "x (points ! (length points - 1)) < targetX"
    and i1: "i + 1 < length points"
  shows "\<not> brackets points targetX i"
proof (cases "i + 1 = length points - 1")
  case True
  then show ?thesis using gt number_less_not_ge by (simp add: brackets_def)
next
  case False
  then have "i + 1 < length points - 1" using i1 by simp
  then have "x (points ! (i + 1)) \<le> x (points ! (length points - 1))"
    using sortedByX_nth[OF sb, of "i + 1" "length points - 1"] i1 by simp
  then have "\<not> targetX \<le> x (points ! (i + 1))" using gt by (rule number_le_less_not_ge)
  then show ?thesis by (simp add: brackets_def)
qed

text \<open>
  Claim C9. \<^verbatim>\<open>getLabelAtX\<close> returns the empty string on the empty collection, and
  on a collection whose primary series has no data. When the primary series has data
  and no segment of it brackets \<open>targetX\<close>, it returns the label of the last point;
  this is the case for every \<open>targetX\<close> after the last \<open>x\<close> of a series sorted by \<open>x\<close>.
\<close>

theorem getLabelAtX_defaults:
  "getLabelAtX [] targetX = [] \<and>
   (primaryLine lines = Some pl \<and> data pl = [] \<longrightarrow> getLabelAtX lines targetX = []) \<and>
   (primaryLine lines = Some pl \<and> data pl \<noteq> [] \<and>
    (\<forall>i. i + 1 < length (data pl) \<longrightarrow>
         \<not> (x (data pl ! i) \<le> targetX \<and> targetX \<le> x (data pl ! (i + 1)))) \<longrightarrow>
      getLabelAtX lines targetX = labelOrEmpty (data pl ! (length (data pl) - 1))) \<and>
   (primaryLine lines = Some pl \<and> data pl \<noteq> [] \<and> sortedByX (data pl) \<and>
    x (data pl ! (length (data pl) - 1)) < targetX \<longrightarrow>
      getLabelAtX lines targetX = labelOrEmpty (data pl ! (length (data pl) - 1)))"
proof (intro conjI impI)
  show "getLabelAtX [] targetX = []"
    by (simp add: getLabelAtX_def primaryLine_def)
next
  assume h: "primaryLine lines = Some pl \<and> data pl = []"
  then have "firstSegment (data pl) targetX = None" by (simp add: firstSegment_def)
  then show "getLabelAtX lines targetX = []"
    using h getLabelAtX_primary[of lines pl targetX] by simp
next
  assume h: "primaryLine lines = Some pl \<and> data pl \<noteq> [] \<and>
    (\<forall>i. i + 1 < length (data pl) \<longrightarrow>
         \<not> (x (data pl ! i) \<le> targetX \<and> targetX \<le> x (data pl ! (i + 1))))"
  then have "firstSegment (data pl) targetX = None"
    by (simp add: firstSegment_None_iff brackets_def)
  then show "getLabelAtX lines targetX = labelOrEmpty (data pl ! (length (data pl) - 1))"
    using h getLabelAtX_primary[of lines pl targetX] by simp
next
  assume h: "primaryLine lines = Some pl \<and> data pl \<noteq> [] \<and> sortedByX (data pl) \<and>
    x (data pl ! (length (data pl) - 1)) < targetX"
  then have "firstSegment (data pl) targetX = None"
    using no_bracket_beyond_last[of "data pl" targetX] by (simp add: firstSegment_None_iff)
  then show "getLabelAtX lines targetX = labelOrEmpty (data pl ! (length (data pl) - 1))"
    using h getLabelAtX_primary[of lines pl targetX] by simp
qed

theorem getLabelAtX_defaults_witness:
  "primaryLine [flaggedLine []] = Some (flaggedLine []) \<and>
   getLabelAtX [flaggedLine []] (Fin 30) = [] \<and>
   primaryLine [twoPointLine ''L'' ''R''] = Some (twoPointLine ''L'' ''R'') \<and>
   sortedByX (data (twoPointLine ''L'' ''R'')) \<and>
   getLabelAtX [twoPointLine ''L'' ''R''] (Fin 150) = ''R'' \<and>
   getLabelAtX [twoPointLine ''L'' ''R''] (Fin (- 20)) = ''R''"
proof -
  define two where "two = twoPointLine ''L'' ''R''"
  have two_simps: "data two = [\<lparr>x = Fin 0, y = Fin 0, label = Some ''L''\<rparr>,
      \<lparr>x = Fin 100, y = Fin 0, label = Some ''R''\<rparr>]" "isPrimary two = None"
    by (simp_all add: two_def twoPointLine_def)
  have e: "primaryLine [flaggedLine []] = Some (flaggedLine []) \<and> data (flaggedLine []) = []"
    by (simp add: primaryLine_def flaggedLine_def)
  have a: "getLabelAtX [flaggedLine []] (Fin 30) = []"
    using e
    by (rule mp[OF getLabelAtX_defaults[where lines = "[flaggedLine []]" and pl = "flaggedLine []"
            and targetX = "Fin 30", THEN conjunct2, THEN conjunct1]])
  have p: "primaryLine [two] = Some two"
    by (simp add: primaryLine_def two_simps)
  have sb: "sortedByX (data two)" by (simp add: sortedByX_def two_simps)
  have h150: "primaryLine [two] = Some two \<and> data two \<noteq> [] \<and> sortedByX (data two) \<and>
      x (data two ! (length (data two) - 1)) < Fin 150"
    using p sb by (simp add: two_simps)
  have "getLabelAtX [two] (Fin 150) = labelOrEmpty (data two ! (length (data two) - 1))"
    using h150
    by (rule mp[OF getLabelAtX_defaults[where lines = "[two]" and pl = two
            and targetX = "Fin 150", THEN conjunct2, THEN conjunct2, THEN conjunct2]])
  then have b: "getLabelAtX [two] (Fin 150) = ''R''"
    by (simp add: two_simps labelOrEmpty_def)
  have nb: "\<not> (x (data two ! i) \<le> Fin (- 20) \<and> Fin (- 20) \<le> x (data two ! (i + 1)))"
    if "i + 1 < length (data two)" for i
  proof -
    have "i = 0" using that by (simp add: two_simps)
    then show ?thesis by (simp add: two_simps)
  qed
  have hm: "primaryLine [two] = Some two \<and> data two \<noteq> [] \<and>
    (\<forall>i. i + 1 < length (data two) \<longrightarrow>
         \<not> (x (data two ! i) \<le> Fin (- 20) \<and> Fin (- 20) \<le> x (data two ! (i + 1))))"
    using p nb by (simp add: two_simps)
  have "getLabelAtX [two] (Fin (- 20)) = labelOrEmpty (data two ! (length (data two) - 1))"
    using hm
    by (rule mp[OF getLabelAtX_defaults[where lines = "[two]" and pl = two
            and targetX = "Fin (- 20)", THEN conjunct2, THEN conjunct2, THEN conjunct1]])
  then have c: "getLabelAtX [two] (Fin (- 20)) = ''R''"
    by (simp add: two_simps labelOrEmpty_def)
  show ?thesis using e a p sb b c by (simp add: two_def)
qed

section \<open>Divisions of the interpolator\<close>





section \<open>Curve Generator\<close>

lemma generateSmoothPath_loop_map:
  "generateSmoothPath_loop points width height i path =
     path @ map (specSegment points width height) [i ..< length points - 1]"
proof (induction points width height i path rule: generateSmoothPath_loop.induct)
  case (1 points width height i path)
  show ?case
  proof (cases "i + 1 < length points")
    case True
    then have lt: "i < length points - 1" by simp
    let ?p0 = "points ! (max 0 (i - 1))"
    let ?p1 = "points ! i"
    let ?p2 = "points ! (i + 1)"
    let ?p3 = "points ! (min (length points - 1) (i + 2))"
    let ?seg = "C (scaleX width (x ?p1) + (scaleX width (x ?p2) - scaleX width (x ?p0)) / Fin 6)
                  (scaleY height (y ?p1) + (scaleY height (y ?p2) - scaleY height (y ?p0)) / Fin 6)
                  (scaleX width (x ?p2) - (scaleX width (x ?p3) - scaleX width (x ?p1)) / Fin 6)
                  (scaleY height (y ?p2) - (scaleY height (y ?p3) - scaleY height (y ?p1)) / Fin 6)
                  (scaleX width (x ?p2)) (scaleY height (y ?p2))"
    have clamp: "min (length points - 1) (i + 2) =
        (if i + 2 < length points then i + 2 else length points - 1)"
      using True by (auto simp: min_def)
    have seg_eq: "?seg = specSegment points width height i"
      unfolding clamp by (simp add: specSegment_def toPixel_def scaleX_def scaleY_def Let_def)
    have "generateSmoothPath_loop points width height i path =
        generateSmoothPath_loop points width height (i + 1) (path @ [?seg])"
      using True by (subst generateSmoothPath_loop.simps) (simp add: Let_def)
    also have "\<dots> = (path @ [?seg]) @ map (specSegment points width height) [i + 1 ..< length points - 1]"
      by (rule "1.IH"[OF True refl refl refl refl refl refl refl refl])
    also have "\<dots> = path @ map (specSegment points width height) [i ..< length points - 1]"
      unfolding seg_eq using lt by (simp add: upt_conv_Cons)
    finally show ?thesis .
  next
    case False
    then show ?thesis by (subst generateSmoothPath_loop.simps) simp
  qed
qed

text \<open>
  Claim C3. On fewer than 2 points \<^verbatim>\<open>generateSmoothPath\<close> returns the empty path. On
  \<open>n \<ge> 2\<close> points it returns the move to the first mapped point followed by exactly
  \<open>n - 1\<close> cubic segments, where a point is mapped by \<open>px = (x / 100) * width\<close> and
  \<open>py = height - (y / 100) * height\<close>, and segment \<open>i\<close> from the mapped \<open>p1\<close> to the
  mapped \<open>p2\<close> has the control points \<open>cp1 = p1 + (p2 - p0) / 6\<close> and
  \<open>cp2 = p2 - (p3 - p1) / 6\<close> on each axis, with \<open>p0\<close> the previous point, or the first
  one when there is none, and \<open>p3\<close> the next point, or the last one when there is none.
\<close>

theorem generateSmoothPath_shape:
  "(length points < 2 \<longrightarrow> generateSmoothPath points width height = []) \<and>
   (2 \<le> length points \<longrightarrow>
      generateSmoothPath points width height =
        M (fst (toPixel (points ! 0) width height)) (snd (toPixel (points ! 0) width height)) #
        map (specSegment points width height) [0 ..< length points - 1] \<and>
      length (generateSmoothPath points width height) = 1 + (length points - 1))"
  by (simp add: generateSmoothPath_def generateSmoothPath_loop_map toPixel_def scaleX_def scaleY_def)

theorem generateSmoothPath_shape_witness:
  "length ([] :: DataPoint list) < 2 \<and> generateSmoothPath [] (Fin 280) (Fin 75) = [] \<and>
   2 \<le> length exampleSeries \<and>
   generateSmoothPath exampleSeries (Fin 280) (Fin 75) =
     [M (Fin 0) (Fin 75),
      C (Fin (70 / 3)) (Fin (125 / 2)) (Fin (280 / 3)) (Fin 0) (Fin 140) (Fin 0),
      C (Fin (560 / 3)) (Fin 0) (Fin (770 / 3)) (Fin (125 / 2)) (Fin 280) (Fin 75)]"
proof -
  have a: "generateSmoothPath [] (Fin 280) (Fin 75) = []"
    using generateSmoothPath_shape[of "[]" "Fin 280" "Fin 75", THEN conjunct1] by simp
  have n: "2 \<le> length exampleSeries" by (simp add: exampleSeries_def)
  have idx: "[0 ..< length exampleSeries - 1] = [0, 1]"
    by (simp add: exampleSeries_def upt_conv_Cons)
  have "generateSmoothPath exampleSeries (Fin 280) (Fin 75) =
        M (fst (toPixel (exampleSeries ! 0) (Fin 280) (Fin 75)))
          (snd (toPixel (exampleSeries ! 0) (Fin 280) (Fin 75))) #
        map (specSegment exampleSeries (Fin 280) (Fin 75)) [0 ..< length exampleSeries - 1]"
    using mp[OF generateSmoothPath_shape[of exampleSeries "Fin 280" "Fin 75", THEN conjunct2] n]
    by (rule conjunct1)
  also have "\<dots> = [M (Fin 0) (Fin 75),
      C (Fin (70 / 3)) (Fin (125 / 2)) (Fin (280 / 3)) (Fin 0) (Fin 140) (Fin 0),
      C (Fin (560 / 3)) (Fin 0) (Fin (770 / 3)) (Fin (125 / 2)) (Fin 280) (Fin 75)]"
    unfolding idx
    by (simp add: exampleSeries_def specSegment_def toPixel_def minus_number_def)
  finally show ?thesis using a n by simp
qed


section \<open>Chart View: order of the series paths\<close>

lemma processedLine_fields:
  "id' (processedLine line idx) = id' line"
  "data (processedLine line idx) = data line"
  by (simp_all add: processedLine_def)

lemma map_processedLines:
  assumes "\<And>line idx. f (processedLine line idx) = g line"
  shows "map f (processedLines lines) = map g lines"
proof -
  have "map f (processedLines lines) = map (\<lambda>(line, idx). g line) (zip lines [0 ..< length lines])"
    by (simp add: processedLines_def assms split_def)
  also have "\<dots> = map g (map fst (zip lines [0 ..< length lines]))"
    by (simp only: map_map comp_def split_def)
  also have "map fst (zip lines [0 ..< length lines]) = lines"
    by (rule map_fst_zip) simp
  finally show ?thesis .
qed

lemma seriesPaths_keys: "map key (seriesPaths lines chartHeight) = rev (map id' lines)"
proof -
  have "map key (seriesPaths lines chartHeight) = rev (map id' (processedLines lines))"
    by (simp add: seriesPaths_def rev_map comp_def)
  then show ?thesis by (simp add: map_processedLines[of id' id'] processedLine_fields)
qed

lemma seriesPaths_d:
  "map d (seriesPaths lines chartHeight) =
     rev (map (\<lambda>line. generateSmoothPath (data line) chartWidth chartHeight) lines)"
proof -
  have "map d (seriesPaths lines chartHeight) =
      rev (map (\<lambda>line. generateSmoothPath (data line) chartWidth chartHeight) (processedLines lines))"
    by (simp add: seriesPaths_def rev_map comp_def)
  then show ?thesis
    by (simp add: map_processedLines[of "\<lambda>line. generateSmoothPath (data line) chartWidth chartHeight"
          "\<lambda>line. generateSmoothPath (data line) chartWidth chartHeight"] processedLine_fields)
qed

lemma seriesPaths_last:
  assumes "lines \<noteq> []"
  shows "key (last (seriesPaths lines chartHeight)) = id' (lines ! 0)"
proof -
  have ne: "seriesPaths lines chartHeight \<noteq> []"
    using assms by (simp add: seriesPaths_def processedLines_def)
  have "key (last (seriesPaths lines chartHeight)) = last (map key (seriesPaths lines chartHeight))"
    using ne by (simp add: last_map)
  also have "\<dots> = last (rev (map id' lines))" by (simp add: seriesPaths_keys)
  also have "\<dots> = id' (lines ! 0)" using assms by (simp add: last_rev hd_map hd_conv_nth)
  finally show ?thesis .
qed

text \<open>
  The collection \<open>twoLines\<close> holds an unflagged series followed by the flagged one. The
  flagged series is the primary one, and its path is the first child, painted beneath
  the path of the unflagged series.
\<close>

theorem seriesPaths_primary_last_counterexample:
  "twoLines \<noteq> [] \<and>
   primaryLine twoLines = Some (flaggedLine exampleSeries) \<and>
   map key (seriesPaths twoLines (Fin 75)) = [id' (flaggedLine exampleSeries), id' (twoPointLine ''L'' ''R'')] \<and>
   key (last (seriesPaths twoLines (Fin 75))) \<noteq> id' (flaggedLine exampleSeries)"
proof -
  have k: "map key (seriesPaths twoLines (Fin 75)) =
      [id' (flaggedLine exampleSeries), id' (twoPointLine ''L'' ''R'')]"
    by (simp add: seriesPaths_keys twoLines_def)
  have l: "key (last (seriesPaths twoLines (Fin 75))) = id' (twoLines ! 0)"
    by (rule seriesPaths_last) (simp add: twoLines_def)
  show ?thesis using k l
    by (simp add: twoLines_def primaryLine_def flaggedLine_def twoPointLine_def)
qed

text \<open>
  Claim C5, as amended. The chart emits one path per series in reverse collection
  order: the keys of the paths are the ids of the series reversed, each path is the
  smooth path of its series, and for a non-empty collection the path drawn last, on
  top of all others, is that of the first series of the collection. The primary
  series is drawn last when it is the first series of the collection.
\<close>

theorem seriesPaths_reverse_order:
  "map key (seriesPaths lines chartHeight) = rev (map id' lines) \<and>
   map d (seriesPaths lines chartHeight) =
     rev (map (\<lambda>line. generateSmoothPath (data line) chartWidth chartHeight) lines) \<and>
   (lines \<noteq> [] \<longrightarrow> key (last (seriesPaths lines chartHeight)) = id' (lines ! 0)) \<and>
   (lines \<noteq> [] \<and> primaryLine lines = Some (lines ! 0) \<longrightarrow>
      (\<exists>pl. primaryLine lines = Some pl \<and> key (last (seriesPaths lines chartHeight)) = id' pl))"
  using seriesPaths_keys[of lines chartHeight] seriesPaths_d[of lines chartHeight]
    seriesPaths_last[of lines chartHeight]
  by simp

theorem seriesPaths_reverse_order_witness:
  "twoLines \<noteq> [] \<and> key (last (seriesPaths twoLines (Fin 75))) = ''two'' \<and>
   primaryLine (rev twoLines) = Some (rev twoLines ! 0) \<and>
   key (last (seriesPaths (rev twoLines) (Fin 75))) = ''main''"
proof -
  have ne: "twoLines \<noteq> []" by (simp add: twoLines_def)
  have "key (last (seriesPaths twoLines (Fin 75))) = id' (twoLines ! 0)"
    using ne
    by (rule mp[OF seriesPaths_reverse_order[of twoLines "Fin 75", THEN conjunct2, THEN conjunct2,
            THEN conjunct1]])
  then have a: "key (last (seriesPaths twoLines (Fin 75))) = ''two''"
    by (simp add: twoLines_def twoPointLine_def)
  have p: "primaryLine (rev twoLines) = Some (rev twoLines ! 0)"
    by (simp add: twoLines_def primaryLine_def flaggedLine_def)
  have h: "rev twoLines \<noteq> [] \<and> primaryLine (rev twoLines) = Some (rev twoLines ! 0)"
    using p by (simp add: twoLines_def)
  have "\<exists>pl. primaryLine (rev twoLines) = Some pl \<and>
      key (last (seriesPaths (rev twoLines) (Fin 75))) = id' pl"
    using h
    by (rule mp[OF seriesPaths_reverse_order[of "rev twoLines" "Fin 75", THEN conjunct2,
            THEN conjunct2, THEN conjunct2]])
  then have b: "key (last (seriesPaths (rev twoLines) (Fin 75))) = ''main''"
    using p by (auto simp: twoLines_def flaggedLine_def)
  show ?thesis using ne a p b by simp
qed

end
